theory Spec2Isabelle
  imports Main "HOL-Library.Sublist"
begin

section \<open>Python values\<close>

text \<open>
  A Python \<open>str\<close> is a sequence of Unicode code points; it is modelled as the list of
  these code points. ASCII pieces of a literal are written with \<open>asc\<close>, every other
  character by its code point (the source's messages and labels are Russian).
\<close>

type_synonym pystr = "nat list"

definition asc :: "string \<Rightarrow> pystr" where
  "asc s = map of_char s"

text \<open>
  \<open>str.strip()\<close> without argument removes leading and trailing whitespace, where
  whitespace is what \<open>str.isspace\<close> accepts: U+0009..U+000D, U+001C..U+0020, U+0085,
  U+00A0, U+1680, U+2000..U+200A, U+2028, U+2029, U+202F, U+205F and U+3000.
\<close>

definition py_isspace :: "nat \<Rightarrow> bool" where
  "py_isspace c =
     ((9 \<le> c \<and> c \<le> 13) \<or> (28 \<le> c \<and> c \<le> 32) \<or> c = 133 \<or> c = 160 \<or> c = 5760 \<or>
      (8192 \<le> c \<and> c \<le> 8202) \<or> c = 8232 \<or> c = 8233 \<or> c = 8239 \<or> c = 8287 \<or>
      c = 12288)"

definition py_lstrip :: "pystr \<Rightarrow> pystr" where
  "py_lstrip s = dropWhile py_isspace s"

definition py_rstrip :: "pystr \<Rightarrow> pystr" where
  "py_rstrip s = rev (dropWhile py_isspace (rev s))"

definition py_strip :: "pystr \<Rightarrow> pystr" where
  "py_strip s = py_rstrip (py_lstrip s)"

text \<open>
  \<open>str.lower()\<close> applies the case mapping of the Unicode character database, which
  belongs to the Python runtime and not to the repository. The model takes it as a
  parameter \<open>lower\<close>. On ASCII strings it is the function below, which serves to run
  the model on concrete ASCII inputs.
\<close>

definition ascii_lower :: "pystr \<Rightarrow> pystr" where
  "ascii_lower s = map (\<lambda>c. if 65 \<le> c \<and> c \<le> 90 then c + 32 else c) s"

text \<open>\<open>str(n)\<close> for a natural number: its decimal digits.\<close>

fun py_str_nat :: "nat \<Rightarrow> pystr" where
  "py_str_nat n = (if n < 10 then [48 + n] else py_str_nat (n div 10) @ [48 + n mod 10])"

text \<open>
  A \<open>dict\<close> with string keys and values is a partial map; \<open>d.get(k, default)\<close> is
  \<open>dict_get\<close>.
\<close>

type_synonym pydict = "pystr \<rightharpoonup> pystr"

definition dict_get :: "pydict \<Rightarrow> pystr \<Rightarrow> pystr \<Rightarrow> pystr" where
  "dict_get d k dflt = (case d k of None \<Rightarrow> dflt | Some v \<Rightarrow> v)"

text \<open>
  Exceptions are values. \<open>ValueError\<close> is what the provider's constructor raises,
  \<open>IndexError\<close> what indexing an empty list raises, and \<open>ExternalError\<close> stands for
  whatever a library or the remote endpoint raises. Each carries its message, which is
  what \<open>str(e)\<close> returns.
\<close>

datatype py_exn = ValueError pystr | IndexError pystr | ExternalError pystr

fun exn_str :: "py_exn \<Rightarrow> pystr" where
  "exn_str (ValueError m) = m"
| "exn_str (IndexError m) = m"
| "exn_str (ExternalError m) = m"

text \<open>A langchain \<open>Document\<close>: the embedded text and the metadata kept beside it.\<close>

record document =
  page_content :: pystr
  metadata :: pydict

definition key_id :: pystr where "key_id = asc ''id''"
definition key_name :: pystr where "key_name = asc ''name''"
definition key_category :: pystr where "key_category = asc ''category''"
definition key_price :: pystr where "key_price = asc ''price''"
definition key_description :: pystr where "key_description = asc ''description''"
definition key_features :: pystr where "key_features = asc ''features''"

section \<open>main.py: the query service\<close>

subsection \<open>The messages of \<open>search_products\<close>\<close>

text \<open>The red paragraph asking the user to enter a query (main.py, line 78).\<close>

definition msg_empty_query :: pystr where
  "msg_empty_query =
     asc ''<p style='color: red;'>'' @
     [1055, 1086, 1078, 1072, 1083, 1091, 1081, 1089, 1090, 1072] @ asc '', '' @
     [1074, 1074, 1077, 1076, 1080, 1090, 1077] @ asc '' '' @
     [1079, 1072, 1087, 1088, 1086, 1089] @ asc '' '' @ [1076, 1083, 1103] @ asc '' '' @
     [1087, 1086, 1080, 1089, 1082, 1072] @ asc '' '' @
     [1090, 1086, 1074, 1072, 1088, 1086, 1074] @ asc ''.</p>''"

text \<open>The orange paragraph for an index that returned nothing (line 85).\<close>

definition msg_not_found :: pystr where
  "msg_not_found =
     asc ''<p style='color: orange;'>'' @ [1058, 1086, 1074, 1072, 1088, 1099] @ asc '' '' @
     [1085, 1077] @ asc '' '' @ [1085, 1072, 1081, 1076, 1077, 1085, 1099] @ asc ''. '' @
     [1055, 1086, 1087, 1088, 1086, 1073, 1091, 1081, 1090, 1077] @ asc '' '' @
     [1080, 1079, 1084, 1077, 1085, 1080, 1090, 1100] @ asc '' '' @
     [1079, 1072, 1087, 1088, 1086, 1089] @ asc ''.</p>''"

text \<open>The orange paragraph for a filter that left nothing (line 101).\<close>

definition msg_similar_not_found :: pystr where
  "msg_similar_not_found =
     asc ''<p style='color: orange;'>'' @ [1055, 1086, 1093, 1086, 1078, 1080, 1077] @
     asc '' '' @ [1090, 1086, 1074, 1072, 1088, 1099] @ asc '' '' @ [1085, 1077] @ asc '' '' @
     [1085, 1072, 1081, 1076, 1077, 1085, 1099] @ asc ''. '' @
     [1055, 1086, 1087, 1088, 1086, 1073, 1091, 1081, 1090, 1077] @ asc '' '' @
     [1080, 1079, 1084, 1077, 1085, 1080, 1090, 1100] @ asc '' '' @
     [1079, 1072, 1087, 1088, 1086, 1089] @ asc ''.</p>''"

text \<open>The red paragraph of the \<open>except\<close> branch, with \<open>str(e)\<close> spliced in (line 124).\<close>

definition msg_error :: "py_exn \<Rightarrow> pystr" where
  "msg_error e =
     asc ''<p style='color: red;'>'' @ [1054, 1096, 1080, 1073, 1082, 1072] @ asc '' '' @
     [1087, 1088, 1080] @ asc '' '' @ [1087, 1086, 1080, 1089, 1082, 1077] @ asc '': '' @
     exn_str e @ asc ''</p>''"

subsection \<open>Rendering the hits\<close>

text \<open>The defaults of the four \<open>metadata.get\<close> calls of lines 107 to 110.\<close>

definition no_name :: pystr where
  "no_name = [1041, 1077, 1079] @ asc '' '' @ [1085, 1072, 1079, 1074, 1072, 1085, 1080, 1103]"

definition not_available :: pystr where
  "not_available = asc ''N/A''"

text \<open>The block appended for the \<open>i\<close>-th hit (lines 112 to 119), whitespace included.\<close>

definition product_block :: "nat \<Rightarrow> document \<Rightarrow> pystr" where
  "product_block i doc =
     (let name = dict_get (metadata doc) key_name no_name;
          product_id = dict_get (metadata doc) key_id not_available;
          category = dict_get (metadata doc) key_category not_available;
          price = dict_get (metadata doc) key_price not_available
      in [10] @
         asc ''            <div style='border: 1px solid #ddd; padding: 15px; margin: 10px 0; border-radius: 5px; background: #f9f9f9;'>'' @
         [10] @ asc ''                <h4 style='margin: 0 0 10px 0; color: #333;'>'' @
         py_str_nat i @ asc ''. '' @ name @ asc ''</h4>'' @ [10] @
         asc ''                <p style='margin: 5px 0;'><strong>ID:</strong> '' @ product_id @
         asc ''</p>'' @ [10] @ asc ''                <p style='margin: 5px 0;'><strong>'' @
         [1050, 1072, 1090, 1077, 1075, 1086, 1088, 1080, 1103] @ asc '':</strong> '' @
         category @ asc ''</p>'' @ [10] @
         asc ''                <p style='margin: 5px 0;'><strong>'' @ [1062, 1077, 1085, 1072] @
         asc '':</strong> '' @ price @ asc ''</p>'' @ [10] @ asc ''            </div>'' @ [10] @
         asc ''            '')"

text \<open>The loop \<open>for i, doc in enumerate(filtered_results, 1): html += ...\<close>.\<close>

fun format_loop :: "nat \<Rightarrow> document list \<Rightarrow> pystr \<Rightarrow> pystr" where
  "format_loop i [] html = html"
| "format_loop i (doc # docs) html = format_loop (Suc i) docs (html @ product_block i doc)"

text \<open>Lines 104 to 121: the heading with the number of hits, then one block per hit.\<close>

definition format_results :: "document list \<Rightarrow> pystr" where
  "format_results filtered_results =
     format_loop 1 filtered_results
       (asc ''<h3>'' @ [1053, 1072, 1081, 1076, 1077, 1085, 1086] @ asc '' '' @
        py_str_nat (length filtered_results) @ asc '' '' @
        [1087, 1086, 1093, 1086, 1078, 1080, 1093] @ asc '' '' @
        [1090, 1086, 1074, 1072, 1088, 1086, 1074] @ asc '':</h3>'')"

subsection \<open>The exact-match filter\<close>

text \<open>
  The loop of lines 91 to 98 over the retrieved documents, with \<open>filtered_results\<close> as
  the accumulator. A document whose normalised name differs from the normalised query is
  appended; right after an append the loop breaks when the accumulator has reached
  \<open>num_results\<close> documents.
\<close>

fun filter_results ::
  "(pystr \<Rightarrow> pystr) \<Rightarrow> pystr \<Rightarrow> int \<Rightarrow> document list \<Rightarrow> document list \<Rightarrow> document list"
where
  "filter_results lower query_lower num_results [] filtered_results = filtered_results"
| "filter_results lower query_lower num_results (doc # results) filtered_results =
     (let name = dict_get (metadata doc) key_name []
      in if py_strip (lower name) \<noteq> query_lower
         then (let filtered_results' = filtered_results @ [doc]
               in if int (length filtered_results') \<ge> num_results
                  then filtered_results'
                  else filter_results lower query_lower num_results results filtered_results')
         else filter_results lower query_lower num_results results filtered_results)"

subsection \<open>The vector store as seen from \<open>search_products\<close>\<close>

text \<open>
  \<open>VECTORSTORE\<close> is a Chroma object of the library \<open>langchain_chroma\<close>, bound at start-up
  to the embedding provider and to the persisted collection. \<open>search_products\<close> uses
  one method of it, \<open>similarity_search(query, k)\<close>, which embeds the query through the
  provider and asks the collection for the \<open>k\<close> nearest documents. The method is a
  parameter of the model: it maps the query, the count and the state of everything
  outside the function (the remote embedding endpoint, the collection) to a list of
  documents or an exception, and to the new outside state. The provider is reachable
  from \<open>search_products\<close> only through this method.

  The state threaded through \<open>search_products\<close> also logs every call of the method with
  its arguments.
\<close>

type_synonym 'w similarity_search =
  "pystr \<Rightarrow> int \<Rightarrow> 'w \<Rightarrow> (py_exn + document list) \<times> 'w"

record 'w session =
  requests :: "(pystr \<times> int) list"
  outside :: 'w

definition call_similarity_search ::
  "'w similarity_search \<Rightarrow> pystr \<Rightarrow> int \<Rightarrow> 'w session \<Rightarrow> (py_exn + document list) \<times> 'w session"
where
  "call_similarity_search vectorstore query k s =
     (case vectorstore query k (outside s) of
        (r, w) \<Rightarrow> (r, \<lparr>requests = requests s @ [(query, k)], outside = w\<rparr>))"

subsection \<open>\<open>search_products\<close>\<close>

text \<open>
  Lines 77 to 124. The function has five \<open>return\<close> statements; \<open>outcome\<close> has one
  constructor for each, \<open>search_outcome\<close> is the control flow that chooses among them
  and \<open>render\<close> is the text each of them returns. An exception raised inside the
  \<open>try\<close> block is caught and becomes the fifth return (line 124).
\<close>

datatype outcome =
    EmptyQuery
  | NotFound
  | SimilarNotFound
  | Found "document list"
  | SearchError py_exn

text \<open>The test \<open>not query or not query.strip()\<close> of line 77.\<close>

definition blank :: "pystr \<Rightarrow> bool" where
  "blank query = (query = [] \<or> py_strip query = [])"

definition search_outcome ::
  "(pystr \<Rightarrow> pystr) \<Rightarrow> 'w similarity_search \<Rightarrow> pystr \<Rightarrow> int \<Rightarrow> 'w session \<Rightarrow> outcome \<times> 'w session"
where
  "search_outcome lower vectorstore query num_results s =
     (if blank query then (EmptyQuery, s)
      else
        (case call_similarity_search vectorstore query (num_results + 1) s of
           (Inl e, s') \<Rightarrow> (SearchError e, s')
         | (Inr results, s') \<Rightarrow>
             if results = [] then (NotFound, s')
             else
               (let query_lower = py_strip (lower query);
                    filtered_results = filter_results lower query_lower num_results results []
                in if filtered_results = [] then (SimilarNotFound, s')
                   else (Found filtered_results, s'))))"

fun render :: "outcome \<Rightarrow> pystr" where
  "render EmptyQuery = msg_empty_query"
| "render NotFound = msg_not_found"
| "render SimilarNotFound = msg_similar_not_found"
| "render (Found filtered_results) = format_results filtered_results"
| "render (SearchError e) = msg_error e"

definition search_products ::
  "(pystr \<Rightarrow> pystr) \<Rightarrow> 'w similarity_search \<Rightarrow> pystr \<Rightarrow> int \<Rightarrow> 'w session \<Rightarrow> pystr \<times> 'w session"
where
  "search_products lower vectorstore query num_results s =
     (case search_outcome lower vectorstore query num_results s of
        (out, s') \<Rightarrow> (render out, s'))"

text \<open>
  The hits an outcome carries, and the condition of line 94 under which a retrieved
  document survives the filter.
\<close>

fun hits_of :: "outcome \<Rightarrow> document list" where
  "hits_of (Found filtered_results) = filtered_results"
| "hits_of _ = []"

definition survives :: "(pystr \<Rightarrow> pystr) \<Rightarrow> pystr \<Rightarrow> document \<Rightarrow> bool" where
  "survives lower query doc =
     (py_strip (lower (dict_get (metadata doc) key_name [])) \<noteq> py_strip (lower query))"

text \<open>The two outcomes that report that there is nothing to show.\<close>

definition no_results :: "outcome \<Rightarrow> bool" where
  "no_results out = (out = NotFound \<or> out = SimilarNotFound)"

section \<open>embeddings.py: the embedding provider\<close>

text \<open>
  An \<open>OpenRouterEmbeddings\<close> object: the four attributes set by the constructor and the
  OpenAI client it builds from the base URL and the key.
\<close>

record provider =
  self_model :: pystr
  self_api_key :: pystr
  self_site_url :: pystr
  self_site_name :: pystr
  client_base_url :: pystr
  client_api_key :: pystr

definition OPENROUTER_API_KEY :: pystr where
  "OPENROUTER_API_KEY = asc ''OPENROUTER_API_KEY''"

text \<open>
  Truthiness of an optional string (\<open>None\<close> and the empty string are false), and
  Python's \<open>a or b\<close> on such values.
\<close>

definition truthy :: "pystr option \<Rightarrow> bool" where
  "truthy v = (case v of None \<Rightarrow> False | Some s \<Rightarrow> s \<noteq> [])"

definition py_or :: "pystr option \<Rightarrow> pystr option \<Rightarrow> pystr option" where
  "py_or a b = (if truthy a then a else b)"

definition msg_no_api_key :: pystr where
  "msg_no_api_key =
     asc ''OPENROUTER_API_KEY '' @ [1085, 1077] @ asc '' '' @
     [1085, 1072, 1081, 1076, 1077, 1085] @ asc '' '' @ [1074] @ asc '' '' @
     [1087, 1077, 1088, 1077, 1084, 1077, 1085, 1085, 1099, 1093] @ asc '' '' @
     [1086, 1082, 1088, 1091, 1078, 1077, 1085, 1080, 1103]"

text \<open>
  The constructor (lines 13 to 33). \<open>environ\<close> is the process environment, so
  \<open>os.getenv(name)\<close> is \<open>environ name\<close>. A constructor that raises returns no object.
\<close>

definition OpenRouterEmbeddings ::
  "pystr \<Rightarrow> pystr option \<Rightarrow> pystr \<Rightarrow> pystr \<Rightarrow> pydict \<Rightarrow> py_exn + provider"
where
  "OpenRouterEmbeddings model api_key site_url site_name environ =
     (let key = py_or api_key (environ OPENROUTER_API_KEY)
      in if \<not> truthy key then Inl (ValueError msg_no_api_key)
         else Inr \<lparr>self_model = model, self_api_key = the key, self_site_url = site_url,
                   self_site_name = site_name,
                   client_base_url = asc ''https://openrouter.ai/api/v1'',
                   client_api_key = the key\<rparr>)"

text \<open>
  The remote endpoint is outside the repository. A request carries what
  \<open>client.embeddings.create\<close> is given; the response is the list \<open>embedding.data\<close>, each
  item holding one vector. The type of vectors is left open: the code never computes
  with them.
\<close>

datatype embed_input = InputText pystr | InputTexts "pystr list"

record request =
  base_url :: pystr
  bearer :: pystr
  extra_headers :: "(pystr \<times> pystr) list"
  req_model :: pystr
  req_input :: embed_input
  encoding_format :: pystr

datatype 'v item = Item (embedding: 'v)

type_synonym 'v endpoint = "request \<Rightarrow> py_exn + 'v item list"

definition embeddings_create :: "'v endpoint \<Rightarrow> provider \<Rightarrow> embed_input \<Rightarrow> py_exn + 'v item list" where
  "embeddings_create remote self inp =
     remote \<lparr>base_url = client_base_url self, bearer = client_api_key self,
             extra_headers = [(asc ''HTTP-Referer'', self_site_url self),
                              (asc ''X-Title'', self_site_name self)],
             req_model = self_model self, req_input = inp,
             encoding_format = asc ''float''\<rparr>"

text \<open>Lines 35 to 46: one remote call on the whole list, one vector per returned item.\<close>

definition embed_documents :: "'v endpoint \<Rightarrow> provider \<Rightarrow> pystr list \<Rightarrow> py_exn + 'v list" where
  "embed_documents remote self texts =
     (case embeddings_create remote self (InputTexts texts) of
        Inl e \<Rightarrow> Inl e
      | Inr data \<Rightarrow> Inr (map embedding data))"

text \<open>
  Lines 48 to 59: one remote call on the bare string, then \<open>data[0]\<close>, which raises
  \<open>IndexError\<close> on an empty response.
\<close>

definition embed_query :: "'v endpoint \<Rightarrow> provider \<Rightarrow> pystr \<Rightarrow> py_exn + 'v" where
  "embed_query remote self text =
     (case embeddings_create remote self (InputText text) of
        Inl e \<Rightarrow> Inl e
      | Inr data \<Rightarrow>
          (case data of
             [] \<Rightarrow> Inl (IndexError (asc ''list index out of range''))
           | item # _ \<Rightarrow> Inr (embedding item)))"

text \<open>
  The remote call stubbed by a function \<open>f\<close> from texts to vectors: the stub answers a
  single text with the vector of that text, and a list of texts with the vectors of
  its elements in the order given, as the endpoint promises.
\<close>

definition stub_endpoint :: "(pystr \<Rightarrow> 'v) \<Rightarrow> 'v endpoint" where
  "stub_endpoint f req =
     Inr (case req_input req of
            InputText t \<Rightarrow> [Item (f t)]
          | InputTexts ts \<Rightarrow> map (\<lambda>t. Item (f t)) ts)"

section \<open>ingest.py: the ingestion pipeline\<close>

subsection \<open>Parsing the catalogue\<close>

text \<open>
  \<open>content.split(sep)\<close> for a non-empty separator: the pieces between the
  non-overlapping occurrences of \<open>sep\<close>, found from left to right. \<open>piece\<close> collects the
  characters read since the last occurrence.
\<close>

function split_loop :: "pystr \<Rightarrow> pystr \<Rightarrow> pystr \<Rightarrow> pystr list" where
  "split_loop sep [] piece = [piece]"
| "split_loop sep (c # cs) piece =
     (if sep \<noteq> [] \<and> prefix sep (c # cs)
      then piece # split_loop sep (drop (length sep) (c # cs)) []
      else split_loop sep cs (piece @ [c]))"
  by pat_completeness auto
termination
  by (relation "measure (\<lambda>(sep, rest, piece). length rest)") auto

definition py_split :: "pystr \<Rightarrow> pystr \<Rightarrow> pystr list" where
  "py_split content sep = split_loop sep content []"

text \<open>
  \<open>re.search(pattern, text, flags)\<close> belongs to the Python runtime and is a parameter:
  given the pattern, whether \<open>re.DOTALL\<close> is set, and the text, it returns \<open>group(1)\<close>
  of the leftmost match, or \<open>None\<close> when the pattern matches nowhere. The six patterns
  are those of lines 44 to 69.
\<close>

type_synonym re_search = "pystr \<Rightarrow> bool \<Rightarrow> pystr \<Rightarrow> pystr option"

definition pat_id :: pystr where
  "pat_id = [92] @ asc ''*'' @ [92] @ asc ''*ID:'' @ [92] @ asc ''*'' @ [92] @ asc ''*'' @
            [92] @ asc ''s*(.+)''"

definition pat_name :: pystr where
  "pat_name = [92] @ asc ''*'' @ [92] @ asc ''*'' @
              [1053, 1072, 1079, 1074, 1072, 1085, 1080, 1077] @ asc '':'' @ [92] @ asc ''*'' @
              [92] @ asc ''*'' @ [92] @ asc ''s*(.+)''"

definition pat_category :: pystr where
  "pat_category = [92] @ asc ''*'' @ [92] @ asc ''*'' @
                  [1050, 1072, 1090, 1077, 1075, 1086, 1088, 1080, 1103] @ asc '':'' @ [92] @
                  asc ''*'' @ [92] @ asc ''*'' @ [92] @ asc ''s*(.+)''"

definition pat_price :: pystr where
  "pat_price = [92] @ asc ''*'' @ [92] @ asc ''*'' @ [1062, 1077, 1085, 1072] @ asc '':'' @
               [92] @ asc ''*'' @ [92] @ asc ''*'' @ [92] @ asc ''s*(.+)''"

definition pat_description :: pystr where
  "pat_description = [92] @ asc ''*'' @ [92] @ asc ''*'' @
                     [1054, 1087, 1080, 1089, 1072, 1085, 1080, 1077] @ asc '':'' @ [92] @
                     asc ''*'' @ [92] @ asc ''*'' @ [92] @ asc ''s*(.+?)(?='' @ [92] @ asc ''*'' @
                     [92] @ asc ''*'' @
                     [1061, 1072, 1088, 1072, 1082, 1090, 1077, 1088, 1080, 1089, 1090, 1080,
                      1082, 1080] @ asc '':'' @ [92] @ asc ''*'' @ [92] @ asc ''*)''"

definition pat_features :: pystr where
  "pat_features = [92] @ asc ''*'' @ [92] @ asc ''*'' @
                  [1061, 1072, 1088, 1072, 1082, 1090, 1077, 1088, 1080, 1089, 1090, 1080,
                   1082, 1080] @ asc '':'' @ [92] @ asc ''*'' @ [92] @ asc ''*'' @ [92] @
                  asc ''s*(.+)''"

text \<open>The title of the catalogue file, whose block is skipped (line 37).\<close>

definition catalogue_title :: pystr where
  "catalogue_title = [1041, 1072, 1079, 1072] @ asc '' '' @
                     [1090, 1086, 1074, 1072, 1088, 1086, 1074]"

text \<open>
  One field of lines 44 to 71: when the pattern matches, the stripped group is stored
  under the key; otherwise the dictionary is left as it is.
\<close>

definition set_field ::
  "re_search \<Rightarrow> pystr \<Rightarrow> bool \<Rightarrow> pystr \<Rightarrow> pystr \<Rightarrow> pydict \<Rightarrow> pydict"
where
  "set_field re pat dotall key product_text product =
     (case re pat dotall product_text of
        None \<Rightarrow> product
      | Some group1 \<Rightarrow> product(key \<mapsto> py_strip group1))"

definition extract_product :: "re_search \<Rightarrow> pystr \<Rightarrow> pydict" where
  "extract_product re product_text =
     (let product = Map.empty;
          product = set_field re pat_id False key_id product_text product;
          product = set_field re pat_name False key_name product_text product;
          product = set_field re pat_category False key_category product_text product;
          product = set_field re pat_price False key_price product_text product;
          product = set_field re pat_description True key_description product_text product;
          product = set_field re pat_features True key_features product_text product
      in product)"

text \<open>The two tests of the loop: line 37 (the block is skipped) and line 74.\<close>

definition skipped :: "pystr \<Rightarrow> bool" where
  "skipped product_text = (py_strip product_text = [] \<or> sublist catalogue_title product_text)"

definition has_id_and_name :: "pydict \<Rightarrow> bool" where
  "has_id_and_name product = (product key_id \<noteq> None \<and> product key_name \<noteq> None)"

text \<open>The loop of lines 35 to 75 over the blocks, with \<open>products\<close> as the accumulator.\<close>

fun parse_loop :: "re_search \<Rightarrow> pystr list \<Rightarrow> pydict list \<Rightarrow> pydict list" where
  "parse_loop re [] products = products"
| "parse_loop re (product_text # products_raw) products =
     (if skipped product_text then parse_loop re products_raw products
      else
        (let product = extract_product re product_text
         in if has_id_and_name product
            then parse_loop re products_raw (products @ [product])
            else parse_loop re products_raw products))"

text \<open>
  \<open>parse_products_from_markdown\<close>, on the text read from the file (lines 28 to 77).
\<close>

definition parse_products_from_markdown :: "re_search \<Rightarrow> pystr \<Rightarrow> pydict list" where
  "parse_products_from_markdown re content =
     (let products_raw = py_split content (asc ''---'') in parse_loop re products_raw [])"

text \<open>
  The records the loop decides on: what the six patterns extract from each block that is
  not skipped.
\<close>

definition records_of :: "re_search \<Rightarrow> pystr \<Rightarrow> pydict list" where
  "records_of re content =
     map (extract_product re) (filter (\<lambda>t. \<not> skipped t) (py_split content (asc ''---'')))"

subsection \<open>Deriving the documents\<close>

text \<open>The label in front of the features (line 96).\<close>

definition features_label :: pystr where
  "features_label =
     [1061, 1072, 1088, 1072, 1082, 1090, 1077, 1088, 1080, 1089, 1090, 1080, 1082, 1080] @
     asc '': ''"

text \<open>
  The body of the loop of lines 92 to 109: the text is built by one assignment and two
  \<open>+=\<close>; the metadata holds four keys, each with the empty string as default.
\<close>

definition make_document :: "pydict \<Rightarrow> document" where
  "make_document product =
     (let content1 = dict_get product key_name [] @ [10, 10];
          content2 = content1 @ (dict_get product key_description [] @ [10, 10]);
          content3 = content2 @ (features_label @ dict_get product key_features []);
          meta = [key_id \<mapsto> dict_get product key_id [],
                  key_name \<mapsto> dict_get product key_name [],
                  key_category \<mapsto> dict_get product key_category [],
                  key_price \<mapsto> dict_get product key_price []]
      in \<lparr>page_content = content3, metadata = meta\<rparr>)"

fun documents_loop :: "pydict list \<Rightarrow> document list \<Rightarrow> document list" where
  "documents_loop [] documents = documents"
| "documents_loop (product # products) documents =
     documents_loop products (documents @ [make_document product])"

definition create_documents_from_products :: "pydict list \<Rightarrow> document list" where
  "create_documents_from_products products = documents_loop products []"

subsection \<open>Rebuilding and loading the persisted collection\<close>

text \<open>
  Durable storage maps a directory path to what is persisted under it. The vector store
  is the library \<open>langchain_chroma\<close>; the two entry points the repository uses are
  parameters of the model: \<open>Chroma.from_documents(documents, embedding, collection_name,
  persist_directory)\<close> and the constructor \<open>Chroma(collection_name, embedding_function,
  persist_directory)\<close>. Each returns a handle or raises, and may change the storage.
\<close>

type_synonym 'c storage = "pystr \<rightharpoonup> 'c"

record ('h, 'c) chroma_api =
  from_documents ::
    "document list \<Rightarrow> provider \<Rightarrow> pystr \<Rightarrow> pystr \<Rightarrow> 'c storage \<Rightarrow> (py_exn + 'h) \<times> 'c storage"
  chroma ::
    "pystr \<Rightarrow> provider \<Rightarrow> pystr \<Rightarrow> 'c storage \<Rightarrow> (py_exn + 'h) \<times> 'c storage"

text \<open>The provider both scripts construct (ingest.py 136 to 141, main.py 33 to 38).\<close>

definition google_provider :: "pydict \<Rightarrow> py_exn + provider" where
  "google_provider environ =
     OpenRouterEmbeddings (asc ''google/gemini-embedding-001'') (environ OPENROUTER_API_KEY)
       (asc ''http://localhost'') (asc ''Product Search'') environ"

text \<open>
  \<open>vectorize_and_save_to_chroma\<close> (ingest.py, lines 127 to 157): remove the directory
  when it exists, construct the provider, then hand over to \<open>Chroma.from_documents\<close>.
\<close>

definition vectorize_and_save_to_chroma ::
  "('h, 'c) chroma_api \<Rightarrow> pydict \<Rightarrow> document list \<Rightarrow> pystr \<Rightarrow> pystr \<Rightarrow> 'c storage \<Rightarrow>
   (py_exn + 'h) \<times> 'c storage"
where
  "vectorize_and_save_to_chroma api environ documents collection_name persist_directory st =
     (let st1 = (if st persist_directory \<noteq> None then st(persist_directory := None) else st)
      in case google_provider environ of
           Inl e \<Rightarrow> (Inl e, st1)
         | Inr embeddings \<Rightarrow>
             from_documents api documents embeddings collection_name persist_directory st1)"

text \<open>
  \<open>load_vectorstore\<close> (main.py, lines 30 to 51): construct the provider, then call the
  constructor of \<open>Chroma\<close>. The function makes no test of its own on the directory.
\<close>

definition load_vectorstore ::
  "('h, 'c) chroma_api \<Rightarrow> pydict \<Rightarrow> pystr \<Rightarrow> pystr \<Rightarrow> 'c storage \<Rightarrow> (py_exn + 'h) \<times> 'c storage"
where
  "load_vectorstore api environ collection_name persist_directory st =
     (case google_provider environ of
        Inl e \<Rightarrow> (Inl e, st)
      | Inr embeddings \<Rightarrow> chroma api collection_name embeddings persist_directory st)"

text \<open>
  \<open>main\<close> of ingest.py (lines 160 to 197) without its printing: parse, derive the
  documents, rebuild the collection \<open>products\<close>.
\<close>

definition ingest_main ::
  "('h, 'c) chroma_api \<Rightarrow> re_search \<Rightarrow> pydict \<Rightarrow> pystr \<Rightarrow> pystr \<Rightarrow> 'c storage \<Rightarrow>
   (py_exn + 'h) \<times> 'c storage"
where
  "ingest_main api re environ content persist_directory st =
     (let products = parse_products_from_markdown re content;
          documents = create_documents_from_products products
      in vectorize_and_save_to_chroma api environ documents (asc ''products'')
           persist_directory st)"

section \<open>Concrete inputs\<close>

text \<open>
  The two records of the catalogue \<open>[{id: 1, name: Phone A}, {id: 2, name: Phone B}]\<close>, the
  documents derived from them, and an index over the two that answers every query with its
  first \<open>k\<close> documents, \<open>Phone A\<close> first.
\<close>

definition phone_a :: pydict where
  "phone_a = [key_id \<mapsto> asc ''1'', key_name \<mapsto> asc ''Phone A'']"

definition phone_b :: pydict where
  "phone_b = [key_id \<mapsto> asc ''2'', key_name \<mapsto> asc ''Phone B'']"

definition two_phones :: "unit similarity_search" where
  "two_phones query k w = (Inr (take (nat k) [make_document phone_a, make_document phone_b]), w)"

text \<open>An index over the first record alone, and an index over no record.\<close>

definition only_phone_a :: "unit similarity_search" where
  "only_phone_a query k w = (Inr (take (nat k) [make_document phone_a]), w)"

definition empty_index :: "unit similarity_search" where
  "empty_index query k w = (Inr [], w)"

definition session0 :: "unit session" where
  "session0 = \<lparr>requests = [], outside = ()\<rparr>"

text \<open>An environment that holds a credential, and an endpoint that always fails.\<close>

definition environ_with_key :: pydict where
  "environ_with_key = [OPENROUTER_API_KEY \<mapsto> asc ''sk-or-test'']"

definition failing_endpoint :: "nat endpoint" where
  "failing_endpoint req = Inl (ExternalError (asc ''connection refused''))"

text \<open>
  An instance of the two entry points of the vector store with the defaults of
  \<open>langchain_chroma\<close>: the constructor opens the named collection under the directory
  and creates it, empty, when it is not there (\<open>create_collection_if_not_exists\<close> is true
  by default); \<open>from_documents\<close> constructs the store in this way, then embeds the texts
  of the documents through the provider and stores them. What is persisted under a
  directory is a list of named collections; a handle is the directory and the name.
\<close>

type_synonym 'v collections = "(pystr \<times> ('v \<times> document) list) list"

definition open_or_create ::
  "pystr \<Rightarrow> provider \<Rightarrow> pystr \<Rightarrow> 'v collections storage \<Rightarrow>
   (py_exn + pystr \<times> pystr) \<times> 'v collections storage"
where
  "open_or_create collection_name embedding_function persist_directory st =
     (let cs = (case st persist_directory of None \<Rightarrow> [] | Some cs \<Rightarrow> cs);
          cs' = (if map_of cs collection_name = None then cs @ [(collection_name, [])] else cs)
      in (Inr (persist_directory, collection_name), st(persist_directory \<mapsto> cs')))"

definition embed_and_store ::
  "'v endpoint \<Rightarrow> document list \<Rightarrow> provider \<Rightarrow> pystr \<Rightarrow> pystr \<Rightarrow> 'v collections storage \<Rightarrow>
   (py_exn + pystr \<times> pystr) \<times> 'v collections storage"
where
  "embed_and_store remote documents embeddings collection_name persist_directory st =
     (case open_or_create collection_name embeddings persist_directory st of
        (Inl e, st1) \<Rightarrow> (Inl e, st1)
      | (Inr h, st1) \<Rightarrow>
          (case embed_documents remote embeddings (map page_content documents) of
             Inl e \<Rightarrow> (Inl e, st1)
           | Inr vectors \<Rightarrow>
               (Inr h, st1(persist_directory \<mapsto> [(collection_name, zip vectors documents)]))))"

definition default_chroma :: "'v endpoint \<Rightarrow> (pystr \<times> pystr, 'v collections) chroma_api" where
  "default_chroma remote =
     \<lparr>from_documents = embed_and_store remote, chroma = open_or_create\<rparr>"

text \<open>A storage that holds an earlier collection \<open>products\<close> under \<open>./chroma_db\<close>.\<close>

definition prior_storage :: "nat collections storage" where
  "prior_storage =
     [asc ''./chroma_db'' \<mapsto> [(asc ''products'', [(7, make_document phone_a)])]]"

section \<open>Properties of the query service\<close>

subsection \<open>Stripping and blank queries\<close>

lemma py_strip_Nil_iff: "py_strip s = [] \<longleftrightarrow> (\<forall>c \<in> set s. py_isspace c)"
proof
  assume "py_strip s = []"
  then have "dropWhile py_isspace (rev (dropWhile py_isspace s)) = []"
    by (simp add: py_strip_def py_rstrip_def py_lstrip_def)
  then have a: "\<forall>c \<in> set (dropWhile py_isspace s). py_isspace c"
    by simp
  have b: "\<forall>c \<in> set (takeWhile py_isspace s). py_isspace c"
    by (meson set_takeWhileD)
  have "set s = set (takeWhile py_isspace s) \<union> set (dropWhile py_isspace s)"
    by (metis set_append takeWhile_dropWhile_id)
  with a b show "\<forall>c \<in> set s. py_isspace c" by blast
next
  assume "\<forall>c \<in> set s. py_isspace c"
  then have d: "dropWhile py_isspace s = []" by simp
  show "py_strip s = []" unfolding py_strip_def py_rstrip_def py_lstrip_def d by simp
qed

lemma blank_iff: "blank q \<longleftrightarrow> list_all py_isspace q"
  by (auto simp: blank_def py_strip_Nil_iff list_all_iff)

subsection \<open>The filter loop in closed form\<close>

text \<open>
  With \<open>acc\<close> documents already collected, the loop appends the survivors among the
  remaining documents and stops after \<open>num_results - length acc\<close> of them, but never
  before the first one: the test of line 97 comes after the append.
\<close>

lemma filter_results_eq:
  "filter_results lower ql n rs acc =
     acc @ take (nat (max 1 (n - int (length acc))))
             (filter (\<lambda>d. py_strip (lower (dict_get (metadata d) key_name [])) \<noteq> ql) rs)"
proof (induction rs arbitrary: acc)
  case Nil
  then show ?case by simp
next
  case (Cons d rs)
  show ?case
  proof (cases "py_strip (lower (dict_get (metadata d) key_name [])) \<noteq> ql")
    case False
    then show ?thesis using Cons.IH [of acc] by simp
  next
    case True
    show ?thesis
    proof (cases "int (length (acc @ [d])) \<ge> n")
      case stop: True
      then have "nat (max 1 (n - int (length acc))) = 1" by auto
      with True stop show ?thesis by (simp add: Let_def)
    next
      case go: False
      then have "nat (max 1 (n - int (length acc))) =
                 Suc (nat (max 1 (n - int (length (acc @ [d])))))"
        by auto
      with True go Cons.IH [of "acc @ [d]"] show ?thesis by (simp add: Let_def)
    qed
  qed
qed

lemma filter_results_survivors:
  "filter_results lower (py_strip (lower q)) k results [] =
     take (nat (max 1 k)) (filter (survives lower q) results)"
proof -
  have "survives lower q =
          (\<lambda>d. py_strip (lower (dict_get (metadata d) key_name [])) \<noteq> py_strip (lower q))"
    by (rule ext) (simp add: survives_def)
  then show ?thesis by (simp add: filter_results_eq)
qed

lemma survives_name: "survives lower q d \<Longrightarrow> dict_get (metadata d) key_name [] \<noteq> q"
  by (auto simp: survives_def)

subsection \<open>The outcome of a search that reached the index\<close>

lemma search_outcome_retrieved:
  assumes "\<not> blank q" and "vectorstore q (k + 1) (outside s) = (Inr results, w)"
  shows "search_outcome lower vectorstore q k s =
           ((if results = [] then NotFound
             else if take (nat (max 1 k)) (filter (survives lower q) results) = []
                  then SimilarNotFound
                  else Found (take (nat (max 1 k)) (filter (survives lower q) results))),
            \<lparr>requests = requests s @ [(q, k + 1)], outside = w\<rparr>)"
  using assms
  by (simp add: search_outcome_def call_similarity_search_def filter_results_survivors Let_def)

lemma hits_of_retrieved:
  assumes "\<not> blank q" and "vectorstore q (k + 1) (outside s) = (Inr results, w)"
  shows "hits_of (fst (search_outcome lower vectorstore q k s)) =
           take (nat (max 1 k)) (filter (survives lower q) results)"
  by (simp add: search_outcome_retrieved [where w = w and results = results] assms)

lemma search_products_render:
  "fst (search_products lower vectorstore q k s) =
     render (fst (search_outcome lower vectorstore q k s))"
  "snd (search_products lower vectorstore q k s) =
     snd (search_outcome lower vectorstore q k s)"
  by (simp_all add: search_products_def split: prod.splits)

subsection \<open>The rendered texts\<close>

lemma format_loop_prefix: "\<exists>t. format_loop i docs html = html @ t"
  by (induction docs arbitrary: i html) (auto, metis append.assoc)

text \<open>The second character of a rendered list of hits is \<open>h\<close>, that of a message \<open>p\<close>.\<close>

lemma format_results_nth: "format_results hits ! Suc 0 = 104"
proof -
  obtain t where "format_results hits =
      (asc ''<h3>'' @ [1053, 1072, 1081, 1076, 1077, 1085, 1086] @ asc '' '' @
       py_str_nat (length hits) @ asc '' '' @
       [1087, 1086, 1093, 1086, 1078, 1080, 1093] @ asc '' '' @
       [1090, 1086, 1074, 1072, 1088, 1086, 1074] @ asc '':</h3>'') @ t"
    unfolding format_results_def using format_loop_prefix by blast
  then show ?thesis by (simp add: asc_def)
qed

lemma msgs_nth: "msg_not_found ! Suc 0 = 112" "msg_similar_not_found ! Suc 0 = 112"
  by (simp_all add: msg_not_found_def msg_similar_not_found_def asc_def)

subsection \<open>The concrete inputs evaluated\<close>

lemma name_phone_a: "dict_get (metadata (make_document phone_a)) key_name [] = asc ''Phone A''"
  by (simp add: make_document_def phone_a_def dict_get_def key_name_def key_id_def
      key_category_def key_price_def asc_def)

lemma name_phone_b: "dict_get (metadata (make_document phone_b)) key_name [] = asc ''Phone B''"
  by (simp add: make_document_def phone_b_def dict_get_def key_name_def key_id_def
      key_category_def key_price_def asc_def)

lemma norm_phone_a: "py_strip (ascii_lower (asc ''Phone A'')) = asc ''phone a''"
  by (simp add: py_strip_def py_lstrip_def py_rstrip_def py_isspace_def ascii_lower_def asc_def)

lemma norm_phone_b: "py_strip (ascii_lower (asc ''Phone B'')) = asc ''phone b''"
  by (simp add: py_strip_def py_lstrip_def py_rstrip_def py_isspace_def ascii_lower_def asc_def)

lemma not_blank_phone: "\<not> blank (asc ''Phone A'')" "\<not> blank (asc ''Phone B'')"
  by (simp_all add: blank_def py_strip_def py_lstrip_def py_rstrip_def py_isspace_def asc_def)

lemma survives_phone:
  "\<not> survives ascii_lower (asc ''Phone A'') (make_document phone_a)"
  "survives ascii_lower (asc ''Phone A'') (make_document phone_b)"
  "survives ascii_lower (asc ''Phone B'') (make_document phone_a)"
  by (simp_all add: survives_def name_phone_a name_phone_b norm_phone_a norm_phone_b)
     (simp_all add: asc_def)

subsection \<open>Exact-match exclusion\<close>

text \<open>
  C1. For every query and every \<open>k \<ge> 1\<close>, when the search reaches the index: a retrieved
  hit is compared by its \<open>name\<close> metadata, lowercased and stripped, with the lowercased and
  stripped query; the hits whose normalised name equals the normalised query are dropped,
  the others are kept in order, and the collection stops at the \<open>k\<close>-th survivor, so the
  hits presented are the first \<open>k\<close> survivors. No presented hit is named exactly as the
  query; in particular a search for \<open>Phone A\<close> never returns the record named \<open>Phone A\<close>.
\<close>

theorem search_excludes_exact_match:
  assumes "1 \<le> k" and "\<not> blank q" and "vectorstore q (k + 1) (outside s) = (Inr results, w)"
  shows "filter_results lower (py_strip (lower q)) k results [] =
           take (nat k) (filter (survives lower q) results)
       \<and> hits_of (fst (search_outcome lower vectorstore q k s)) =
           take (nat k) (filter (survives lower q) results)
       \<and> fst (search_products lower vectorstore q k s) =
           (if results = [] then msg_not_found
            else if filter (survives lower q) results = [] then msg_similar_not_found
            else format_results (take (nat k) (filter (survives lower q) results)))
       \<and> (\<forall>d \<in> set (hits_of (fst (search_outcome lower vectorstore q k s))).
            dict_get (metadata d) key_name [] \<noteq> q)"
proof -
  from \<open>1 \<le> k\<close> have k: "nat (max 1 k) = nat k" "nat k \<noteq> 0" by auto
  have a: "filter_results lower (py_strip (lower q)) k results [] =
             take (nat k) (filter (survives lower q) results)"
    by (simp add: filter_results_survivors k)
  have b: "hits_of (fst (search_outcome lower vectorstore q k s)) =
             take (nat k) (filter (survives lower q) results)"
    using assms(2,3) by (simp add: hits_of_retrieved [where w = w and results = results] k)
  have c: "fst (search_products lower vectorstore q k s) =
           (if results = [] then msg_not_found
            else if filter (survives lower q) results = [] then msg_similar_not_found
            else format_results (take (nat k) (filter (survives lower q) results)))"
    using assms(2,3) k
    by (simp add: search_products_render
        search_outcome_retrieved [where w = w and results = results])
  have d: "\<forall>d \<in> set (hits_of (fst (search_outcome lower vectorstore q k s))).
             dict_get (metadata d) key_name [] \<noteq> q"
  proof
    fix d assume "d \<in> set (hits_of (fst (search_outcome lower vectorstore q k s)))"
    then have "d \<in> set (filter (survives lower q) results)"
      unfolding b by (rule in_set_takeD)
    then show "dict_get (metadata d) key_name [] \<noteq> q" using survives_name by auto
  qed
  from a b c d show ?thesis by blast
qed

text \<open>
  The index of the two phones, searched for \<open>Phone A\<close> with \<open>k = 1\<close>: two neighbours are
  requested, \<open>Phone A\<close> is dropped and \<open>Phone B\<close> is the one hit.
\<close>

theorem search_excludes_exact_match_witness:
  "(1::int) \<le> 1 \<and> \<not> blank (asc ''Phone A'')
   \<and> two_phones (asc ''Phone A'') (1 + 1) (outside session0) =
       (Inr [make_document phone_a, make_document phone_b], ())
   \<and> hits_of (fst (search_outcome ascii_lower two_phones (asc ''Phone A'') 1 session0)) =
       [make_document phone_b]
   \<and> fst (search_products ascii_lower two_phones (asc ''Phone A'') 1 session0) =
       format_results [make_document phone_b]"
proof -
  have h1: "(1::int) \<le> 1" by simp
  have h2: "\<not> blank (asc ''Phone A'')" by (rule not_blank_phone)
  have h3: "two_phones (asc ''Phone A'') (1 + 1) (outside session0) =
              (Inr [make_document phone_a, make_document phone_b], ())"
    by (simp add: two_phones_def)
  have f: "filter (survives ascii_lower (asc ''Phone A''))
             [make_document phone_a, make_document phone_b] = [make_document phone_b]"
    by (simp add: survives_phone)
  show ?thesis
    using search_excludes_exact_match [where lower = ascii_lower and vectorstore = two_phones
        and q = "asc ''Phone A''" and k = 1 and s = session0, OF h1 h2 h3] h2 h3
    unfolding f by simp
qed

subsection \<open>Blank queries\<close>

lemma spaces: "list_all py_isspace (asc ''   '')" "list_all py_isspace []"
  by (simp_all add: asc_def py_isspace_def)

text \<open>
  C5. For every query that is empty or consists of whitespace only, and every \<open>k\<close>,
  the search returns the guidance message as an ordinary result, and nothing outside
  the function is touched: the vector store is not called (the request log and the
  outside state are unchanged), so the embedding provider behind it is not invoked.
\<close>

theorem blank_query_guidance:
  assumes "list_all py_isspace q"
  shows "search_products lower vectorstore q k s = (msg_empty_query, s)
       \<and> search_outcome lower vectorstore q k s = (EmptyQuery, s)"
  using assms by (simp add: search_products_def search_outcome_def blank_iff)

text \<open>The queries of the specification's example: the empty one and three spaces.\<close>

theorem blank_query_guidance_witness:
  "list_all py_isspace (asc ''   '')
   \<and> search_products ascii_lower two_phones (asc ''   '') 5 session0 = (msg_empty_query, session0)
   \<and> list_all py_isspace []
   \<and> search_products ascii_lower two_phones [] 5 session0 = (msg_empty_query, session0)"
  using blank_query_guidance [where lower = ascii_lower and vectorstore = two_phones and k = 5
      and s = session0, OF spaces(1)]
    blank_query_guidance [where lower = ascii_lower and vectorstore = two_phones and k = 5
      and s = session0, OF spaces(2)] spaces
  by simp

subsection \<open>The overfetch\<close>

lemma search_outcome_session:
  assumes "\<not> blank q"
  shows "snd (search_outcome lower vectorstore q k s) =
           \<lparr>requests = requests s @ [(q, k + 1)],
            outside = snd (vectorstore q (k + 1) (outside s))\<rparr>"
  using assms
  by (simp add: search_outcome_def call_similarity_search_def Let_def
      split: prod.splits sum.splits)

text \<open>
  C6. For every query that is not rejected as empty and every requested count \<open>k\<close>, the
  search makes exactly one request to the vector store, for \<open>k + 1\<close> neighbours of the
  query as typed; the filter then works on the answer to that request.
\<close>

theorem search_overfetches_by_one:
  assumes "\<not> blank q"
  shows "requests (snd (search_products lower vectorstore q k s)) = requests s @ [(q, k + 1)]
       \<and> outside (snd (search_products lower vectorstore q k s)) =
           snd (vectorstore q (k + 1) (outside s))"
  using assms by (simp add: search_products_render search_outcome_session)

theorem search_overfetches_by_one_witness:
  "\<not> blank (asc ''Phone A'')
   \<and> requests (snd (search_products ascii_lower two_phones (asc ''Phone A'') 5 session0)) =
       [(asc ''Phone A'', 6)]"
  using search_overfetches_by_one [where lower = ascii_lower and vectorstore = two_phones
      and q = "asc ''Phone A''" and k = 5 and s = session0, OF not_blank_phone(1)]
    not_blank_phone(1)
  by (simp add: session0_def)

subsection \<open>No results\<close>

text \<open>
  C9. For every query that is not rejected as empty, if no retrieved hit survives the
  filter, which includes an index that returned no hit at all, the search returns a
  no-results outcome: \<open>NotFound\<close> for an empty answer of the index and
  \<open>SimilarNotFound\<close> otherwise. Its text differs from the text of every outcome that
  carries hits.
\<close>

theorem no_results_outcome:
  assumes "\<not> blank q" and "vectorstore q (k + 1) (outside s) = (Inr results, w)"
    and "filter (survives lower q) results = []"
  shows "no_results (fst (search_outcome lower vectorstore q k s))
       \<and> fst (search_outcome lower vectorstore q k s) =
           (if results = [] then NotFound else SimilarNotFound)
       \<and> fst (search_products lower vectorstore q k s) =
           (if results = [] then msg_not_found else msg_similar_not_found)
       \<and> (\<forall>hits. \<not> no_results (Found hits)
            \<and> render (Found hits) \<noteq> fst (search_products lower vectorstore q k s))"
proof -
  have a: "fst (search_outcome lower vectorstore q k s) =
             (if results = [] then NotFound else SimilarNotFound)"
    using assms by (simp add: search_outcome_retrieved [where w = w and results = results])
  then have b: "no_results (fst (search_outcome lower vectorstore q k s))"
    by (simp add: no_results_def)
  have c: "fst (search_products lower vectorstore q k s) =
             (if results = [] then msg_not_found else msg_similar_not_found)"
    by (simp add: search_products_render a)
  have n: "fst (search_products lower vectorstore q k s) ! Suc 0 = 112"
    unfolding c by (simp add: msgs_nth)
  have d: "render (Found hits) \<noteq> fst (search_products lower vectorstore q k s)" for hits
  proof
    assume "render (Found hits) = fst (search_products lower vectorstore q k s)"
    then have "render (Found hits) ! Suc 0 = fst (search_products lower vectorstore q k s) ! Suc 0"
      by (rule arg_cong)
    then show False unfolding n by (simp add: format_results_nth)
  qed
  have e: "\<not> no_results (Found hits)" for hits by (simp add: no_results_def)
  from a b c d e show ?thesis by blast
qed

text \<open>An index that holds \<open>Phone A\<close> alone, searched for \<open>Phone A\<close>.\<close>

theorem no_results_outcome_witness:
  "\<not> blank (asc ''Phone A'')
   \<and> only_phone_a (asc ''Phone A'') (5 + 1) (outside session0) = (Inr [make_document phone_a], ())
   \<and> filter (survives ascii_lower (asc ''Phone A'')) [make_document phone_a] = []
   \<and> fst (search_outcome ascii_lower only_phone_a (asc ''Phone A'') 5 session0) = SimilarNotFound
   \<and> fst (search_products ascii_lower only_phone_a (asc ''Phone A'') 5 session0) =
       msg_similar_not_found
   \<and> render (Found [make_document phone_b]) \<noteq> msg_similar_not_found"
proof -
  have h2: "only_phone_a (asc ''Phone A'') (5 + 1) (outside session0) =
              (Inr [make_document phone_a], ())"
    by (simp add: only_phone_a_def)
  have h3: "filter (survives ascii_lower (asc ''Phone A'')) [make_document phone_a] = []"
    by (simp add: survives_phone)
  note t = no_results_outcome [where lower = ascii_lower and vectorstore = only_phone_a
        and q = "asc ''Phone A''" and k = 5 and s = session0, OF not_blank_phone(1) h2 h3]
  have o: "fst (search_outcome ascii_lower only_phone_a (asc ''Phone A'') 5 session0) =
             SimilarNotFound"
    using t by simp
  have p: "fst (search_products ascii_lower only_phone_a (asc ''Phone A'') 5 session0) =
             msg_similar_not_found"
    using t by simp
  have r: "render (Found [make_document phone_b]) \<noteq> msg_similar_not_found"
    using t unfolding p by blast
  from not_blank_phone(1) h2 h3 o p r show ?thesis by blast
qed

subsection \<open>The presented hits as a subsequence\<close>

lemma subseq_take_filter: "subseq (take n (filter P xs)) xs"
proof -
  have "subseq (take n (filter P xs)) (take n (filter P xs) @ drop n (filter P xs))"
    by (intro list_emb_prefix subseq_order.order_refl)
  then have "subseq (take n (filter P xs)) (filter P xs)" by simp
  then show ?thesis using subseq_filter_left subseq_order.order_trans by blast
qed

text \<open>
  C10, as stated, bounds the number of presented hits by \<open>k\<close> for every \<open>k\<close>. The break
  of line 97 is tested only after an append, so a search with \<open>k = 0\<close> presents the first
  survivor: on the index of the two phones, the query \<open>Phone B\<close> with \<open>k = 0\<close> requests one
  neighbour, receives \<open>Phone A\<close> and presents it.
\<close>

theorem presented_hits_bound_counterexample:
  "hits_of (fst (search_outcome ascii_lower two_phones (asc ''Phone B'') 0 session0)) =
     [make_document phone_a]
   \<and> \<not> int (length (hits_of (fst (search_outcome ascii_lower two_phones (asc ''Phone B'') 0
          session0)))) \<le> 0"
proof -
  have h: "two_phones (asc ''Phone B'') (0 + 1) (outside session0) =
             (Inr [make_document phone_a], ())"
    by (simp add: two_phones_def)
  have "hits_of (fst (search_outcome ascii_lower two_phones (asc ''Phone B'') 0 session0)) =
          take (nat (max 1 0)) (filter (survives ascii_lower (asc ''Phone B''))
            [make_document phone_a])"
    using not_blank_phone(2) h by (rule hits_of_retrieved)
  then have "hits_of (fst (search_outcome ascii_lower two_phones (asc ''Phone B'') 0
      session0)) = [make_document phone_a]"
    by (simp add: survives_phone)
  then show ?thesis by simp
qed

text \<open>
  C10, amended. For every query that is not rejected as empty and every \<open>k\<close>, the hits
  presented are a subsequence of the candidates returned by the vector store, in their
  order, and there are at most \<open>max 1 k\<close> of them: at most \<open>k\<close> when \<open>k \<ge> 1\<close>, at most
  one otherwise.
\<close>

theorem presented_hits_subsequence:
  assumes "\<not> blank q" and "vectorstore q (k + 1) (outside s) = (Inr results, w)"
  shows "subseq (hits_of (fst (search_outcome lower vectorstore q k s))) results
       \<and> int (length (hits_of (fst (search_outcome lower vectorstore q k s)))) \<le> max 1 k
       \<and> hits_of (fst (search_outcome lower vectorstore q k s)) =
           take (nat (max 1 k)) (filter (survives lower q) results)"
proof -
  have a: "hits_of (fst (search_outcome lower vectorstore q k s)) =
             take (nat (max 1 k)) (filter (survives lower q) results)"
    using assms by (rule hits_of_retrieved)
  have b: "subseq (hits_of (fst (search_outcome lower vectorstore q k s))) results"
    unfolding a by (rule subseq_take_filter)
  have c: "int (length (hits_of (fst (search_outcome lower vectorstore q k s)))) \<le> max 1 k"
    unfolding a by simp
  from a b c show ?thesis by blast
qed

theorem presented_hits_subsequence_witness:
  "\<not> blank (asc ''Phone A'')
   \<and> two_phones (asc ''Phone A'') (1 + 1) (outside session0) =
       (Inr [make_document phone_a, make_document phone_b], ())
   \<and> subseq (hits_of (fst (search_outcome ascii_lower two_phones (asc ''Phone A'') 1 session0)))
       [make_document phone_a, make_document phone_b]
   \<and> int (length (hits_of (fst (search_outcome ascii_lower two_phones (asc ''Phone A'') 1
        session0)))) \<le> 1"
proof -
  have h3: "two_phones (asc ''Phone A'') (1 + 1) (outside session0) =
              (Inr [make_document phone_a, make_document phone_b], ())"
    by (simp add: two_phones_def)
  note t = presented_hits_subsequence [where lower = ascii_lower and vectorstore = two_phones
        and q = "asc ''Phone A''" and k = 1 and s = session0, OF not_blank_phone(1) h3]
  from t have a: "subseq (hits_of (fst (search_outcome ascii_lower two_phones (asc ''Phone A'') 1
      session0))) [make_document phone_a, make_document phone_b]"
    by (rule conjunct1)
  from t have b: "int (length (hits_of (fst (search_outcome ascii_lower two_phones
      (asc ''Phone A'') 1 session0)))) \<le> max 1 1"
    by (rule conjunct2 [THEN conjunct1])
  from not_blank_phone(1) h3 a b show ?thesis by simp
qed

section \<open>Properties of the embedding provider\<close>

lemma truthy_py_or: "truthy (py_or a b) = (truthy a \<or> truthy b)"
  by (simp add: py_or_def)

lemma truthy_the: "truthy v \<Longrightarrow> the v \<noteq> [] \<and> v = Some (the v)"
  by (cases v) (simp_all add: truthy_def)

lemma key_lookup: "environ_with_key OPENROUTER_API_KEY = Some (asc ''sk-or-test'')"
  by (simp add: environ_with_key_def)

text \<open>
  C7. Constructing the provider raises, with \<open>ValueError\<close>, exactly when neither the
  argument nor the variable \<open>OPENROUTER_API_KEY\<close> of the environment gives a
  credential (each is absent or empty). The constructor yields a provider only when one
  of them does, and then the provider holds that non-empty credential. The failure is
  the constructor's own result: no provider exists on which a later call could fail for
  the lack of a credential.
\<close>

theorem provider_requires_credential:
  "(OpenRouterEmbeddings model api_key site_url site_name environ =
      Inl (ValueError msg_no_api_key))
     = (\<not> truthy api_key \<and> \<not> truthy (environ OPENROUTER_API_KEY))
   \<and> (\<exists>p. OpenRouterEmbeddings model api_key site_url site_name environ = Inr p)
     = (truthy api_key \<or> truthy (environ OPENROUTER_API_KEY))
   \<and> (\<forall>p. OpenRouterEmbeddings model api_key site_url site_name environ = Inr p \<longrightarrow>
         self_api_key p \<noteq> [] \<and> client_api_key p = self_api_key p
         \<and> Some (self_api_key p) = py_or api_key (environ OPENROUTER_API_KEY))"
proof -
  let ?key = "py_or api_key (environ OPENROUTER_API_KEY)"
  show ?thesis
  proof (cases "truthy ?key")
    case True
    from truthy_the [OF True] have "the ?key \<noteq> []" "?key = Some (the ?key)" by simp_all
    with True show ?thesis
      using truthy_py_or [of api_key "environ OPENROUTER_API_KEY"]
      by (auto simp: OpenRouterEmbeddings_def Let_def)
  next
    case False
    then show ?thesis
      using truthy_py_or [of api_key "environ OPENROUTER_API_KEY"]
      by (auto simp: OpenRouterEmbeddings_def Let_def)
  qed
qed

text \<open>
  No argument and an empty environment; an empty argument and an empty environment; no
  argument and an environment that holds the key.
\<close>

theorem provider_requires_credential_witness:
  "OpenRouterEmbeddings (asc ''google/gemini-embedding-001'') None (asc ''http://localhost'')
     (asc ''Product Search'') Map.empty = Inl (ValueError msg_no_api_key)
   \<and> OpenRouterEmbeddings (asc ''google/gemini-embedding-001'') (Some []) (asc ''http://localhost'')
     (asc ''Product Search'') Map.empty = Inl (ValueError msg_no_api_key)
   \<and> self_api_key (projr (OpenRouterEmbeddings (asc ''google/gemini-embedding-001'') None
       (asc ''http://localhost'') (asc ''Product Search'') environ_with_key)) = asc ''sk-or-test''"
proof -
  have a: "OpenRouterEmbeddings (asc ''google/gemini-embedding-001'') None (asc ''http://localhost'')
     (asc ''Product Search'') Map.empty = Inl (ValueError msg_no_api_key)"
    using provider_requires_credential [of "asc ''google/gemini-embedding-001''" None
        "asc ''http://localhost''" "asc ''Product Search''" Map.empty]
    by (simp add: truthy_def)
  have b: "OpenRouterEmbeddings (asc ''google/gemini-embedding-001'') (Some []) (asc ''http://localhost'')
     (asc ''Product Search'') Map.empty = Inl (ValueError msg_no_api_key)"
    using provider_requires_credential [of "asc ''google/gemini-embedding-001''" "Some []"
        "asc ''http://localhost''" "asc ''Product Search''" Map.empty]
    by (simp add: truthy_def)
  have t: "truthy (environ_with_key OPENROUTER_API_KEY)"
    by (simp add: key_lookup truthy_def asc_def)
  note c = provider_requires_credential [of "asc ''google/gemini-embedding-001''" None
        "asc ''http://localhost''" "asc ''Product Search''" environ_with_key]
  from c t obtain p where p: "OpenRouterEmbeddings (asc ''google/gemini-embedding-001'') None
       (asc ''http://localhost'') (asc ''Product Search'') environ_with_key = Inr p"
    by blast
  with c have "Some (self_api_key p) = py_or None (environ_with_key OPENROUTER_API_KEY)"
    by blast
  then have "self_api_key p = asc ''sk-or-test''"
    by (simp add: py_or_def truthy_def key_lookup)
  with p a b show ?thesis by simp
qed

text \<open>
  C8. With the remote call stubbed by a function \<open>f\<close> on texts, \<open>embed_documents\<close>
  returns the vectors of its texts position by position, \<open>embed_query\<close> of a text
  returns the vector of that text, which is the first element of \<open>embed_documents\<close> on
  the one-element list, and \<open>embed_documents\<close> on two texts is the list of the two
  \<open>embed_query\<close> results.
\<close>

theorem embed_alignment:
  "embed_documents (stub_endpoint f) self texts = Inr (map f texts)
   \<and> embed_query (stub_endpoint f) self t = Inr (f t)
   \<and> embed_query (stub_endpoint f) self t =
       map_sum id (\<lambda>vectors. vectors ! 0) (embed_documents (stub_endpoint f) self [t])
   \<and> embed_documents (stub_endpoint f) self [t1, t2] =
       Inr [projr (embed_query (stub_endpoint f) self t1),
            projr (embed_query (stub_endpoint f) self t2)]"
  by (simp add: embed_documents_def embed_query_def embeddings_create_def stub_endpoint_def
      comp_def)

section \<open>Properties of the ingestion pipeline\<close>

subsection \<open>The loops in closed form\<close>

lemma parse_loop_eq:
  "parse_loop re blocks products =
     products @ filter has_id_and_name
       (map (extract_product re) (filter (\<lambda>t. \<not> skipped t) blocks))"
  by (induction blocks arbitrary: products) (simp_all add: Let_def)

lemma documents_loop_eq: "documents_loop products documents = documents @ map make_document products"
  by (induction products arbitrary: documents) simp_all

lemma parse_products_eq:
  "parse_products_from_markdown re content = filter has_id_and_name (records_of re content)"
  by (simp add: parse_products_from_markdown_def records_of_def parse_loop_eq)

lemma create_documents_eq:
  "create_documents_from_products products = map make_document products"
  by (simp add: create_documents_from_products_def documents_loop_eq)

subsection \<open>Admission\<close>

text \<open>
  The test of line 74 with its two keys written out, and what puts each key into a
  record: the match of the pattern for \<open>ID\<close>, respectively for the name.
\<close>

lemma has_id_and_name_keys:
  "has_id_and_name = (\<lambda>product. product (asc ''id'') \<noteq> None \<and> product (asc ''name'') \<noteq> None)"
  by (rule ext) (simp add: has_id_and_name_def key_id_def key_name_def)

lemma extract_product_id:
  "(extract_product re product_text (asc ''id'') \<noteq> None) = (re pat_id False product_text \<noteq> None)"
  by (simp add: extract_product_def set_field_def Let_def key_id_def key_name_def
      key_category_def key_price_def key_description_def key_features_def asc_def
      split: option.splits)

lemma extract_product_name:
  "(extract_product re product_text (asc ''name'') \<noteq> None) =
     (re pat_name False product_text \<noteq> None)"
  by (simp add: extract_product_def set_field_def Let_def key_id_def key_name_def
      key_category_def key_price_def key_description_def key_features_def asc_def
      split: option.splits)

text \<open>
  C2. For every catalogue text, and so every sequence of records extracted from it, the
  parser admits exactly the records in which both the key \<open>id\<close> and the key \<open>name\<close>
  are present, in their order: a record is returned if and only if it is one of the
  records and holds both keys. The admitted records and the rejected ones, those that
  lack \<open>id\<close> or lack \<open>name\<close>, together are all the records. The documents handed to
  the vector store are those derived from the admitted records, so a record without
  \<open>id\<close> or without \<open>name\<close> never reaches the index. A record holds \<open>id\<close> exactly when
  the pattern for \<open>ID\<close> matches its block, and \<open>name\<close> exactly when the pattern for
  the name does.
\<close>

theorem ingest_admits_exactly:
  "parse_products_from_markdown re content =
     filter (\<lambda>product. product (asc ''id'') \<noteq> None \<and> product (asc ''name'') \<noteq> None)
       (records_of re content)
   \<and> (product \<in> set (parse_products_from_markdown re content)) =
       (product \<in> set (records_of re content)
        \<and> product (asc ''id'') \<noteq> None \<and> product (asc ''name'') \<noteq> None)
   \<and> list_all (\<lambda>product. product (asc ''id'') \<noteq> None \<and> product (asc ''name'') \<noteq> None)
       (parse_products_from_markdown re content)
   \<and> length (parse_products_from_markdown re content)
       + length (filter (\<lambda>product. product (asc ''id'') = None \<or> product (asc ''name'') = None)
                  (records_of re content))
       = length (records_of re content)
   \<and> ingest_main api re environ content persist_directory st =
       vectorize_and_save_to_chroma api environ
         (map make_document
            (filter (\<lambda>product. product (asc ''id'') \<noteq> None \<and> product (asc ''name'') \<noteq> None)
               (records_of re content)))
         (asc ''products'') persist_directory st
   \<and> (extract_product re product_text (asc ''id'') \<noteq> None) =
       (re pat_id False product_text \<noteq> None)
   \<and> (extract_product re product_text (asc ''name'') \<noteq> None) =
       (re pat_name False product_text \<noteq> None)"
proof -
  let ?both = "\<lambda>product::pydict. product (asc ''id'') \<noteq> None \<and> product (asc ''name'') \<noteq> None"
  have a: "parse_products_from_markdown re content = filter ?both (records_of re content)"
    using parse_products_eq [of re content] by (simp only: has_id_and_name_keys)
  have b: "(product \<in> set (parse_products_from_markdown re content)) =
       (product \<in> set (records_of re content)
        \<and> product (asc ''id'') \<noteq> None \<and> product (asc ''name'') \<noteq> None)"
    unfolding a by simp
  have c: "list_all ?both (parse_products_from_markdown re content)"
    unfolding a by (simp add: list_all_iff)
  have n: "(\<lambda>product::pydict. product (asc ''id'') = None \<or> product (asc ''name'') = None) =
             (\<lambda>product. \<not> ?both product)"
    by (rule ext) simp
  have d: "length (parse_products_from_markdown re content)
       + length (filter (\<lambda>product. product (asc ''id'') = None \<or> product (asc ''name'') = None)
                  (records_of re content))
       = length (records_of re content)"
    unfolding a n by (rule sum_length_filter_compl)
  have e: "ingest_main api re environ content persist_directory st =
       vectorize_and_save_to_chroma api environ
         (map make_document (filter ?both (records_of re content)))
         (asc ''products'') persist_directory st"
    by (simp add: ingest_main_def Let_def a create_documents_eq)
  from a b c d e extract_product_id [of re product_text] extract_product_name [of re product_text]
  show ?thesis by (intro conjI)
qed

subsection \<open>The embedded text\<close>

text \<open>
  C3. The text derived from a record is its name, two newlines, its description, two
  newlines, the label \<open>Harakteristiki:\<close> (in Cyrillic letters) followed by a space, and
  its features, where a field the record lacks counts as the empty string. The
  derivation is a function of the record alone, applied to each record in turn.
\<close>

theorem embedding_text_derivation:
  "page_content (make_document product) =
     dict_get product key_name [] @ [10, 10] @ dict_get product key_description [] @ [10, 10]
       @ features_label @ dict_get product key_features []
   \<and> features_label =
       [1061, 1072, 1088, 1072, 1082, 1090, 1077, 1088, 1080, 1089, 1090, 1080, 1082, 1080, 58, 32]
   \<and> create_documents_from_products products = map make_document products
   \<and> map page_content (create_documents_from_products products) =
       map (\<lambda>product. dict_get product key_name [] @ [10, 10]
              @ dict_get product key_description [] @ [10, 10]
              @ features_label @ dict_get product key_features []) products"
proof -
  have a: "page_content (make_document product) =
     dict_get product key_name [] @ [10, 10] @ dict_get product key_description [] @ [10, 10]
       @ features_label @ dict_get product key_features []" for product
    by (simp add: make_document_def Let_def)
  have b: "features_label =
       [1061, 1072, 1088, 1072, 1082, 1090, 1077, 1088, 1080, 1089, 1090, 1080, 1082, 1080, 58, 32]"
    by (simp add: features_label_def asc_def)
  have c: "create_documents_from_products products = map make_document products"
    by (rule create_documents_eq)
  have d: "map page_content (create_documents_from_products products) =
       map (\<lambda>product. dict_get product key_name [] @ [10, 10]
              @ dict_get product key_description [] @ [10, 10]
              @ features_label @ dict_get product key_features []) products"
    unfolding c by (simp add: a)
  from a b c d show ?thesis by blast
qed

section \<open>Properties of rebuild and load\<close>

lemma rebuild_unfold:
  "vectorize_and_save_to_chroma api environ documents collection_name persist_directory st =
     (case google_provider environ of
        Inl e \<Rightarrow> (Inl e, st(persist_directory := None))
      | Inr embeddings \<Rightarrow>
          from_documents api documents embeddings collection_name persist_directory
            (st(persist_directory := None)))"
proof -
  have "(if st persist_directory \<noteq> None then st(persist_directory := None) else st) =
          st(persist_directory := None)"
    by (rule ext) simp
  then show ?thesis
    unfolding vectorize_and_save_to_chroma_def Let_def by (simp only:)
qed

lemma provider_with_key:
  "google_provider environ_with_key =
     Inr \<lparr>self_model = asc ''google/gemini-embedding-001'', self_api_key = asc ''sk-or-test'',
          self_site_url = asc ''http://localhost'', self_site_name = asc ''Product Search'',
          client_base_url = asc ''https://openrouter.ai/api/v1'',
          client_api_key = asc ''sk-or-test''\<rparr>"
  by (simp add: google_provider_def OpenRouterEmbeddings_def key_lookup py_or_def truthy_def
      Let_def asc_def)

lemma failed_rebuild:
  "vectorize_and_save_to_chroma (default_chroma failing_endpoint) environ_with_key
     [make_document phone_b] (asc ''products'') (asc ''./chroma_db'') prior_storage =
   (Inl (ExternalError (asc ''connection refused'')),
    [asc ''./chroma_db'' \<mapsto> [(asc ''products'', [])]])"
proof -
  have e: "prior_storage(asc ''./chroma_db'' := None) = Map.empty"
    by (simp add: prior_storage_def)
  have "prior_storage (asc ''./chroma_db'') \<noteq> None" by (simp add: prior_storage_def)
  then show ?thesis
    by (simp add: vectorize_and_save_to_chroma_def provider_with_key default_chroma_def
        embed_and_store_def open_or_create_def embed_documents_def embeddings_create_def
        failing_endpoint_def e Let_def)
qed

text \<open>
  C4, as stated, lets a load after a failed rebuild fail with a not-found error.
  \<open>load_vectorstore\<close> tests nothing itself, and with the constructor of the vector store
  in its default mode (open or create) the load succeeds: here the endpoint fails during
  the rebuild of a location that held a collection, the rebuild raises, and the load
  that follows returns a handle, on a collection that is new and empty.
\<close>

theorem failed_rebuild_then_load_counterexample:
  "fst (vectorize_and_save_to_chroma (default_chroma failing_endpoint) environ_with_key
          [make_document phone_b] (asc ''products'') (asc ''./chroma_db'') prior_storage) =
     Inl (ExternalError (asc ''connection refused''))
   \<and> fst (load_vectorstore (default_chroma failing_endpoint) environ_with_key (asc ''products'')
          (asc ''./chroma_db'')
          (snd (vectorize_and_save_to_chroma (default_chroma failing_endpoint) environ_with_key
                  [make_document phone_b] (asc ''products'') (asc ''./chroma_db'')
                  prior_storage))) =
     Inr (asc ''./chroma_db'', asc ''products'')"
  unfolding failed_rebuild
  by (simp add: load_vectorstore_def provider_with_key default_chroma_def open_or_create_def
      Let_def)

text \<open>
  C4, amended. Rebuild removes what is persisted at the location before it constructs
  the provider and before the vector store creates the new collection, and removing is
  a no-op on an empty location: the vector store is handed a storage whose location is
  empty, a rebuild whose provider cannot be constructed leaves the location empty, and
  the result of a rebuild is the same whatever the location held before, so the prior
  collection is never what a later load yields. A load makes no test of its own: once
  its provider is constructed, its result is that of the vector store's constructor on
  the location.
\<close>

theorem rebuild_deletes_first:
  "vectorize_and_save_to_chroma api environ documents collection_name persist_directory st =
     (case google_provider environ of
        Inl e \<Rightarrow> (Inl e, st(persist_directory := None))
      | Inr embeddings \<Rightarrow>
          from_documents api documents embeddings collection_name persist_directory
            (st(persist_directory := None)))
   \<and> vectorize_and_save_to_chroma api environ documents collection_name persist_directory
       (st(persist_directory := prior)) =
     vectorize_and_save_to_chroma api environ documents collection_name persist_directory
       (st(persist_directory := None))
   \<and> load_vectorstore api environ' collection_name persist_directory st' =
     (case google_provider environ' of
        Inl e \<Rightarrow> (Inl e, st')
      | Inr embeddings \<Rightarrow> chroma api collection_name embeddings persist_directory st')"
  by (simp add: rebuild_unfold load_vectorstore_def split: sum.splits)

end
